theory Spec2Isabelle
  imports Main "HOL-Library.Sublist"
begin

section \<open>The prefix tree of lexicon.h / lexicon.cpp\<close>

text \<open>
  \<^verbatim>\<open>class TrieNode { std::unordered_map<char, TrieNode*> children; bool isEndOfWord; }\<close>
  Every child pointer is created by \<^verbatim>\<open>new TrieNode()\<close> inside \<^verbatim>\<open>Trie::insert\<close> and is
  stored in exactly one map, so the pointer graph is a tree and a node is modelled by
  its value: the flag and the finite map from characters to the child nodes.
\<close>

datatype TrieNode = Node (isEndOfWord: bool) (children: "char \<Rightarrow> TrieNode option")

text \<open>\<^verbatim>\<open>TrieNode() : isEndOfWord(false) {}\<close> with an empty \<open>children\<close> map.\<close>

definition new_TrieNode :: TrieNode where
  "new_TrieNode = Node False (\<lambda>c. None)"

text \<open>
  \<^verbatim>\<open>class Trie { TrieNode* root; std::unordered_set<std::string> words; }\<close>
  The field \<open>words\<close> lists the unordered set in the order in which a range-for loop
  visits it. C++ leaves that order unspecified: the model puts a new word in front, and
  every theorem below about a loop over \<open>words\<close> is proved for an arbitrary
  duplicate-free list, that is for every iteration order.
\<close>

record Trie =
  root :: TrieNode
  words :: "string list"

text \<open>\<^verbatim>\<open>Trie::Trie() { root = new TrieNode(); }\<close>\<close>

definition new_Trie :: Trie where
  "new_Trie = \<lparr>root = new_TrieNode, words = []\<rparr>"

text \<open>
  The loop of \<^verbatim>\<open>Trie::insert\<close>, started at \<open>node\<close>: a missing child is created, the walk
  moves into the child, and the node reached after the last character is marked.
\<close>

fun insert_node :: "string \<Rightarrow> TrieNode \<Rightarrow> TrieNode" where
  "insert_node [] node = Node True (children node)"
| "insert_node (c # cs) node =
     (let child = (case children node c of None \<Rightarrow> new_TrieNode | Some n \<Rightarrow> n)
      in Node (isEndOfWord node) ((children node)(c \<mapsto> insert_node cs child)))"

text \<open>\<^verbatim>\<open>words.insert(word)\<close> on the unordered set: no effect when the word is present.\<close>

definition insert_words :: "string \<Rightarrow> string list \<Rightarrow> string list" where
  "insert_words word ws = (if word \<in> set ws then ws else word # ws)"

definition insert_word :: "string \<Rightarrow> Trie \<Rightarrow> Trie" where
  "insert_word word t =
     \<lparr>root = insert_node word (root t), words = insert_words word (words t)\<rparr>"

text \<open>
  The loop of \<^verbatim>\<open>Trie::search\<close>: \<open>false\<close> at the first missing child, otherwise the
  flag of the node reached. (The messages written to \<open>std::cout\<close> are not modelled.)
\<close>

fun search_node :: "TrieNode \<Rightarrow> string \<Rightarrow> bool" where
  "search_node node [] = isEndOfWord node"
| "search_node node (c # cs) =
     (case children node c of None \<Rightarrow> False | Some n \<Rightarrow> search_node n cs)"

definition search :: "Trie \<Rightarrow> string \<Rightarrow> bool" where
  "search t word = search_node (root t) word"

text \<open>The loop of \<^verbatim>\<open>Trie::startsWith\<close>: as \<open>search\<close>, but \<open>true\<close> at the end of the path.\<close>

fun startsWith_node :: "TrieNode \<Rightarrow> string \<Rightarrow> bool" where
  "startsWith_node node [] = True"
| "startsWith_node node (c # cs) =
     (case children node c of None \<Rightarrow> False | Some n \<Rightarrow> startsWith_node n cs)"

definition startsWith :: "Trie \<Rightarrow> string \<Rightarrow> bool" where
  "startsWith t pre = startsWith_node (root t) pre"

text \<open>A sequence of \<open>insert\<close> calls on one trie, first word first.\<close>

definition insert_all :: "string list \<Rightarrow> Trie \<Rightarrow> Trie" where
  "insert_all ws t = foldl (\<lambda>t' w. insert_word w t') t ws"

text \<open>Whether some word of the backing set of the trie has \<open>pre\<close> as a leading substring.\<close>

definition stored_with_prefix :: "Trie \<Rightarrow> string \<Rightarrow> bool" where
  "stored_with_prefix t pre = list_ex (prefix pre) (words t)"

section \<open>Characters and strings\<close>

text \<open>
  \<open>std::isspace\<close> and \<open>::tolower\<close> in the "C" locale, which a program that never calls
  \<open>setlocale\<close> runs in: the white space is the blank and the control characters 9 to 13,
  and only the letters \<open>A\<close> to \<open>Z\<close> (65 to 90) have a lower-case form, 32 further on.
  A byte above 127 is left as it is, which is what the C libraries in use do with it.
\<close>

definition isspace :: "char \<Rightarrow> bool" where
  "isspace c = (of_char c = (32::nat) \<or> (9 \<le> (of_char c :: nat) \<and> (of_char c :: nat) \<le> 13))"

definition tolower :: "char \<Rightarrow> char" where
  "tolower c =
     (if 65 \<le> (of_char c :: nat) \<and> (of_char c :: nat) \<le> 90
      then char_of ((of_char c :: nat) + 32) else c)"

text \<open>
  \<^verbatim>\<open>std::string trim(const std::string& str)\<close>: \<open>first_pos\<close> is the position of the
  iterator \<open>start\<close>, the first character that is no white space; when there is none
  the result is empty; \<open>end_pos\<close> is the position of the iterator \<open>end\<close>, just behind
  the last character that is no white space; the result is the range between them.
\<close>

definition trim :: "string \<Rightarrow> string" where
  "trim str =
     (let first_pos = length (takeWhile isspace str) in
      if first_pos = length str then []
      else (let end_pos = length str - length (takeWhile isspace (rev str))
            in take (end_pos - first_pos) (drop first_pos str)))"

text \<open>
  \<open>word.find(str)\<close> of \<open>std::string\<close>: the lowest position at which \<open>str\<close> occurs in
  \<open>word\<close>, \<open>None\<close> for \<open>npos\<close>. \<open>find_from\<close> scans the rest of the word, \<open>pos\<close> being
  the position of its first character; the empty string occurs at the end of the word too.
\<close>

fun find_from :: "string \<Rightarrow> string \<Rightarrow> nat \<Rightarrow> nat option" where
  "find_from [] str pos = (if str = [] then Some pos else None)"
| "find_from (c # cs) str pos =
     (if take (length str) (c # cs) = str then Some pos else find_from cs str (Suc pos))"

definition find_str :: "string \<Rightarrow> string \<Rightarrow> nat option" where
  "find_str word str = find_from word str 0"

text \<open>
  \<open>randomWord.substr(0, prefixLength)\<close> with an \<open>int\<close> argument: the count is converted
  to \<open>size_t\<close>, so a negative count becomes a huge one, and \<open>substr\<close> cuts every count
  down to the characters that are there.
\<close>

definition substr0 :: "string \<Rightarrow> int \<Rightarrow> string" where
  "substr0 word n = (if n < 0 then word else take (nat n) word)"

section \<open>The lexicon\<close>

text \<open>\<^verbatim>\<open>class Lexicon { Trie nsfwTrie; Trie trie; }\<close>, both tries built by \<open>Trie()\<close>.\<close>

record Lexicon =
  trie :: Trie
  nsfwTrie :: Trie

definition new_Lexicon :: Lexicon where
  "new_Lexicon = \<lparr>trie = new_Trie, nsfwTrie = new_Trie\<rparr>"

text \<open>
  \<^verbatim>\<open>Lexicon::checkUserWord\<close> and \<^verbatim>\<open>Lexicon::isNsfwWord\<close>: \<open>trim\<close>, then \<open>std::transform\<close>
  with \<open>::tolower\<close> over the whole string, then \<open>search\<close> in the one trie.
\<close>

definition checkUserWord :: "Lexicon \<Rightarrow> string \<Rightarrow> bool" where
  "checkUserWord l userWord =
     (let normalizedWord = map tolower (trim userWord)
      in if search (trie l) normalizedWord then True else False)"

definition isNsfwWord :: "Lexicon \<Rightarrow> string \<Rightarrow> bool" where
  "isNsfwWord l word =
     (let normalizedWord = map tolower (trim word)
      in search (nsfwTrie l) normalizedWord)"

text \<open>
  The loop of \<^verbatim>\<open>Lexicon::CheckPrefixHasMinimumWords\<close> over the words still to visit.
  \<open>count\<close> is an \<open>int\<close> of the source; it grows by one at a time and the loop returns as
  soon as it reaches \<open>MinAmount\<close>, itself an \<open>int\<close>, so it never overflows and the
  unbounded integers of HOL compute what the machine integers do.
\<close>

fun count_loop :: "string list \<Rightarrow> string \<Rightarrow> int \<Rightarrow> int \<Rightarrow> bool" where
  "count_loop [] pre MinAmount count = False"
| "count_loop (word # rest) pre MinAmount count =
     (if find_str word pre = Some 0
      then (if count + 1 \<ge> MinAmount then True
            else count_loop rest pre MinAmount (count + 1))
      else count_loop rest pre MinAmount count)"

text \<open>(The message written to \<open>std::cerr\<close> for an empty word set is not modelled here.)\<close>

definition CheckPrefixHasMinimumWords :: "Lexicon \<Rightarrow> string \<Rightarrow> int \<Rightarrow> bool" where
  "CheckPrefixHasMinimumWords l pre MinAmount =
     (let wordSet = words (trie l)
      in if wordSet = [] then False else count_loop wordSet pre MinAmount 0)"

text \<open>
  The number of words of the dictionary word set that have \<open>pre\<close> as a leading
  substring, as the specification counts them.
\<close>

definition prefix_count :: "Lexicon \<Rightarrow> string \<Rightarrow> nat" where
  "prefix_count l pre = card (Set.filter (prefix pre) (set (words (trie l))))"

text \<open>
  \<^verbatim>\<open>Lexicon::GeneratePrefixFromRandomWord(int length, bool Randomize)\<close>. The values that
  the successive calls of \<open>rand()\<close> return are an input, the list \<open>draws\<close>; the result is
  \<open>None\<close> when the do-while loop is still running after the last of them.

  The loop is undefined behaviour in two places, which the model returns as faults:
  \<open>rand() % length\<close> for \<open>length = 0\<close>, and the \<open>+ 1\<close> when the remainder is already the
  largest \<open>int\<close> (of 32 bits). \<open>%\<close> truncates, and its left operand is never negative
  here, so the remainder is the one modulo the absolute value of \<open>length\<close>. (The third
  fault is for the loaders below, which use the pointer that \<open>GetInstance\<close> returns
  without a test.)

  \<open>continue\<close> in a do-while loop jumps to the test of the loop, which is evaluated on
  the value \<open>randomPrefix\<close> has at that moment.
\<close>

datatype fault = DivisionByZero | SignedOverflow | NullDereference

text \<open>
  One run of the body of the do-while loop: the new value of \<open>randomPrefix\<close> (or the
  fault) and the draws that are left, \<open>None\<close> when the body needs a draw and none is left.
\<close>

definition loop_body ::
  "Lexicon \<Rightarrow> int \<Rightarrow> bool \<Rightarrow> string \<Rightarrow> nat list \<Rightarrow> ((fault + string) \<times> nat list) option" where
  "loop_body l len Randomize randomPrefix draws =
     (case draws of
        [] \<Rightarrow> None
      | r # rs \<Rightarrow>
          (let wordSet = words (trie l);
               randomWord = wordSet ! (r mod length wordSet)
           in if length randomWord < 2 then Some (Inr randomPrefix, rs)
              else if Randomize
              then (case rs of
                      [] \<Rightarrow> None
                    | r2 # rs2 \<Rightarrow>
                        if len = 0 then Some (Inl DivisionByZero, rs2)
                        else if int (r2 mod nat \<bar>len\<bar>) + 1 > 2147483647
                        then Some (Inl SignedOverflow, rs2)
                        else (let prefixLength =
                                    min (int (r2 mod nat \<bar>len\<bar>) + 1) (int (length randomWord))
                              in Some (Inr (substr0 randomWord prefixLength), rs2)))
              else (let prefixLength = min len (int (length randomWord))
                    in Some (Inr (substr0 randomWord prefixLength), rs))))"

lemma loop_body_consumes:
  "loop_body l len Randomize randomPrefix draws = Some (res, rest) \<Longrightarrow> length rest < length draws"
  by (auto simp: loop_body_def Let_def split: list.splits if_splits)

text \<open>The do-while loop: the body, then the test on the value the body has left.\<close>

function GeneratePrefix_loop ::
  "Lexicon \<Rightarrow> int \<Rightarrow> bool \<Rightarrow> string \<Rightarrow> nat list \<Rightarrow> (fault + string) option" where
  "GeneratePrefix_loop l len Randomize randomPrefix draws =
     (case loop_body l len Randomize randomPrefix draws of
        None \<Rightarrow> None
      | Some (Inl f, rest) \<Rightarrow> Some (Inl f)
      | Some (Inr candidate, rest) \<Rightarrow>
          if \<not> CheckPrefixHasMinimumWords l candidate 20
          then GeneratePrefix_loop l len Randomize candidate rest
          else Some (Inr candidate))"
  by pat_completeness auto
termination
  by (relation "measure (\<lambda>(l, len, Randomize, randomPrefix, draws). length draws)")
     (auto dest: loop_body_consumes)

declare GeneratePrefix_loop.simps [simp del]

definition GeneratePrefixFromRandomWord ::
  "Lexicon \<Rightarrow> int \<Rightarrow> bool \<Rightarrow> nat list \<Rightarrow> (fault + string) option" where
  "GeneratePrefixFromRandomWord l len Randomize draws =
     (if words (trie l) = [] then Some (Inr [])
      else GeneratePrefix_loop l len Randomize [] draws)"

section \<open>The singleton and the loaders\<close>

text \<open>
  The static state: \<^verbatim>\<open>std::unique_ptr<Lexicon> Lexicon::instance\<close> (\<open>None\<close> for
  \<open>nullptr\<close>) and the three lists of \<open>GlobalAssetManager\<close> that lexicon.cpp and the
  loaders use. \<^verbatim>\<open>const std::vector<std::string>& prefixes\<close> of lexicon.cpp is a reference to
  \<open>prefixList\<close>.
\<close>

record Globals =
  lexicon_instance :: "Lexicon option"
  dictionaryWords :: "string list"
  prefixList :: "string list"
  nsfwList :: "string list"

text \<open>The state before \<open>main\<close>: no instance, empty lists.\<close>

definition startup_Globals :: Globals where
  "startup_Globals =
     \<lparr>lexicon_instance = None, dictionaryWords = [], prefixList = [], nsfwList = []\<rparr>"

text \<open>
  \<^verbatim>\<open>Lexicon::GetInstance\<close> and \<^verbatim>\<open>Lexicon::getRandomPrefix\<close>, each with the lines it writes
  to \<open>std::cerr\<close>. \<open>r\<close> is the value that \<open>rand()\<close> returns when it is called.
\<close>

definition GetInstance :: "Globals \<Rightarrow> Lexicon option \<times> string list" where
  "GetInstance g =
     (case lexicon_instance g of
        None \<Rightarrow> (None, [''Error: Lexicon instance is not initialized!''])
      | Some l \<Rightarrow> (Some l, []))"

definition getRandomPrefix :: "Globals \<Rightarrow> nat \<Rightarrow> string \<times> string list" where
  "getRandomPrefix g r =
     (let prefixes = prefixList g
      in if prefixes = [] then ([], [''Error: No prefixes loaded!''])
         else (let randomIndex = r mod length prefixes in (prefixes ! randomIndex, [])))"

text \<open>
  The files are an input: the content of each file that can be opened. The three
  loaders of AssetManager.cpp find the key, the first \<open>[\<close> from the key on and the first
  \<open>]\<close> from there on, and cut the text between the two brackets out; \<open>None\<close> stands for
  each of the early returns.
\<close>

type_synonym file_system = "string \<Rightarrow> string option"

definition array_content :: "string \<Rightarrow> string \<Rightarrow> string option" where
  "array_content jsonString key =
     (case find_str jsonString key of
        None \<Rightarrow> None
      | Some keyPos \<Rightarrow>
          (case find_from (drop keyPos jsonString) ''['' keyPos of
             None \<Rightarrow> None
           | Some arrayStart \<Rightarrow>
               (case find_from (drop arrayStart jsonString) '']'' arrayStart of
                  None \<Rightarrow> None
                | Some arrayEnd \<Rightarrow>
                    Some (take (arrayEnd - arrayStart - 1) (drop (arrayStart + 1) jsonString)))))"

text \<open>
  The items that the successive calls \<^verbatim>\<open>std::getline(ss, item, ',')\<close> read from the rest of
  the stream; \<open>item\<close> holds the characters read since the last comma. At the end of the
  stream a call that has read no character fails, which ends the loop.
\<close>

fun getlines :: "string \<Rightarrow> string \<Rightarrow> string list" where
  "getlines [] item = (if item = [] then [] else [item])"
| "getlines (c # cs) item =
     (if c = CHR '','' then item # getlines cs [] else getlines cs (item @ [c]))"

text \<open>The double quote, and \<open>"name":\<close> for a key.\<close>

definition dquote :: char where
  "dquote = CHR 0x22"

definition json_key :: "string \<Rightarrow> string" where
  "json_key name = dquote # name @ [dquote, CHR '':'']"

definition remove_quotes :: "string \<Rightarrow> string" where
  "remove_quotes item = filter (\<lambda>c. c \<noteq> dquote) item"

text \<open>
  \<^verbatim>\<open>AssetManager::UE_LoadDictionary\<close>: every item without its quotes, trimmed and in lower
  case; the ones that are not empty replace \<open>dictionaryWords\<close> and are inserted into the
  dictionary trie of the instance.
\<close>

definition UE_LoadDictionary :: "file_system \<Rightarrow> string \<Rightarrow> Globals \<Rightarrow> fault + Globals" where
  "UE_LoadDictionary fs fileName g =
     (case fs fileName of
        None \<Rightarrow> Inr g
      | Some jsonString \<Rightarrow>
          (case array_content jsonString (json_key ''words'') of
             None \<Rightarrow> Inr g
           | Some arrayContent \<Rightarrow>
               (case lexicon_instance g of
                  None \<Rightarrow> Inl NullDereference
                | Some l \<Rightarrow>
                    (let ws = filter (\<lambda>word. word \<noteq> [])
                                (map (\<lambda>word. map tolower (trim (remove_quotes word)))
                                   (getlines arrayContent []))
                     in Inr (g\<lparr>dictionaryWords := ws,
                               lexicon_instance := Some (l\<lparr>trie := insert_all ws (trie l)\<rparr>)\<rparr>)))))"

text \<open>\<^verbatim>\<open>AssetManager::UE_LoadPrefixes\<close>: the items without quotes, trimmed, case kept.\<close>

definition UE_LoadPrefixes :: "file_system \<Rightarrow> string \<Rightarrow> Globals \<Rightarrow> Globals" where
  "UE_LoadPrefixes fs fileName g =
     (case fs fileName of
        None \<Rightarrow> g
      | Some jsonString \<Rightarrow>
          (case array_content jsonString (json_key ''prefixes'') of
             None \<Rightarrow> g
           | Some arrayContent \<Rightarrow>
               g\<lparr>prefixList := filter (\<lambda>item. item \<noteq> [])
                                (map (\<lambda>item. trim (remove_quotes item))
                                   (getlines arrayContent []))\<rparr>))"

text \<open>
  \<^verbatim>\<open>AssetManager::UE_LoadNSFW\<close>, which trims with two \<open>erase\<close> calls of its own: the
  leading white space, then the trailing white space.
\<close>

definition UE_LoadNSFW :: "file_system \<Rightarrow> string \<Rightarrow> Globals \<Rightarrow> fault + Globals" where
  "UE_LoadNSFW fs fileName g =
     (case fs fileName of
        None \<Rightarrow> Inr g
      | Some jsonString \<Rightarrow>
          (case array_content jsonString (json_key ''nsfw'') of
             None \<Rightarrow> Inr g
           | Some arrayContent \<Rightarrow>
               (case lexicon_instance g of
                  None \<Rightarrow> Inl NullDereference
                | Some l \<Rightarrow>
                    (let ws = filter (\<lambda>item. item \<noteq> [])
                                (map (\<lambda>item. map tolower
                                        (rev (dropWhile isspace
                                           (rev (dropWhile isspace (remove_quotes item))))))
                                   (getlines arrayContent []))
                     in Inr (g\<lparr>nsfwList := ws,
                               lexicon_instance := Some (l\<lparr>nsfwTrie := insert_all ws (nsfwTrie l)\<rparr>)\<rparr>)))))"

text \<open>
  The static \<^verbatim>\<open>Lexicon::Initialize(wordFilename, prefixFilename, nsfwFilename)\<close>: all
  of it is inside \<^verbatim>\<open>if (!instance)\<close>. (The constructor seeds \<open>rand\<close>, whose values are an
  input of the model.)
\<close>

definition Initialize ::
  "file_system \<Rightarrow> string \<Rightarrow> string \<Rightarrow> string \<Rightarrow> Globals \<Rightarrow> fault + Globals" where
  "Initialize fs wordFilename prefixFilename nsfwFilename g =
     (case lexicon_instance g of
        Some l \<Rightarrow> Inr g
      | None \<Rightarrow>
          (case UE_LoadDictionary fs wordFilename (g\<lparr>lexicon_instance := Some new_Lexicon\<rparr>) of
             Inl f \<Rightarrow> Inl f
           | Inr g1 \<Rightarrow> UE_LoadNSFW fs nsfwFilename (UE_LoadPrefixes fs prefixFilename g1)))"

text \<open>A sequence of calls of \<open>Initialize\<close>, each with its files and file names.\<close>

fun Initialize_calls ::
  "(file_system \<times> string \<times> string \<times> string) list \<Rightarrow> Globals \<Rightarrow> fault + Globals" where
  "Initialize_calls [] g = Inr g"
| "Initialize_calls ((fs, wordFilename, prefixFilename, nsfwFilename) # calls) g =
     (case Initialize fs wordFilename prefixFilename nsfwFilename g of
        Inl f \<Rightarrow> Inl f
      | Inr g' \<Rightarrow> Initialize_calls calls g')"

text \<open>
  The lexicon after \<open>insert\<close> has been called with the words \<open>ds\<close> on the dictionary
  trie and with the words \<open>ns\<close> on the profanity trie. The two tries are two objects,
  so the order of the calls between them does not matter.
\<close>

definition loaded_Lexicon :: "string list \<Rightarrow> string list \<Rightarrow> Lexicon" where
  "loaded_Lexicon ds ns = \<lparr>trie = insert_all ds new_Trie, nsfwTrie = insert_all ns new_Trie\<rparr>"

section \<open>Example dictionaries\<close>

text \<open>The dictionary of the scenario in the specification: cat, car, cart, dog.\<close>

definition scenario_Lexicon :: Lexicon where
  "scenario_Lexicon = loaded_Lexicon [''cat'', ''car'', ''cart'', ''dog''] []"

text \<open>Twenty English words that begin with \<open>a\<close>, the one-letter word \<open>a\<close> among them.\<close>

definition twenty_words :: "string list" where
  "twenty_words =
     [''ace'', ''an'', ''and'', ''ant'', ''any'', ''ape'', ''apt'', ''arc'', ''are'', ''ark'',
      ''arm'', ''art'', ''ash'', ''ask'', ''asp'', ''ate'', ''awe'', ''axe'', ''aye'', ''a'']"

definition twenty_Lexicon :: Lexicon where
  "twenty_Lexicon = loaded_Lexicon twenty_words []"

text \<open>A file system with three small files, one for each loader.\<close>

definition scenario_files :: file_system where
  "scenario_files =
     [''words.json'' \<mapsto> json_key ''words'' @ '' [''
          @ [dquote] @ ''Cat'' @ [dquote] @ '', '' @ [dquote] @ ''dog'' @ [dquote] @ '']'',
      ''prefixes.json'' \<mapsto> json_key ''prefixes'' @ '' [''
          @ [dquote] @ ''ca'' @ [dquote] @ '','' @ [dquote] @ ''do'' @ [dquote] @ '']'',
      ''nsfw.json'' \<mapsto> json_key ''nsfw'' @ '' ['' @ [dquote] @ ''Damn '' @ [dquote] @ '']'']"

section \<open>Insertion and lookup\<close>

lemma search_new_TrieNode: "search_node new_TrieNode v = False"
  by (cases v) (simp_all add: new_TrieNode_def)

lemma startsWith_new_TrieNode: "startsWith_node new_TrieNode p = (p = [])"
  by (cases p) (simp_all add: new_TrieNode_def)

lemma search_insert_node:
  "search_node (insert_node w node) v = (v = w \<or> search_node node v)"
proof (induction w arbitrary: node v)
  case Nil
  show ?case by (cases v) simp_all
next
  case (Cons c cs)
  note IH = Cons.IH
  show ?case
  proof (cases v)
    case Nil
    then show ?thesis by (simp add: Let_def)
  next
    case v: (Cons d ds)
    show ?thesis
    proof (cases "d = c")
      case True
      show ?thesis
      proof (cases "children node c")
        case None
        with v True show ?thesis
          by (simp add: Let_def IH search_new_TrieNode)
      next
        case (Some n)
        with v True show ?thesis
          by (simp add: Let_def IH)
      qed
    next
      case False
      with v show ?thesis by (simp add: Let_def)
    qed
  qed
qed

lemma startsWith_insert_node:
  "startsWith_node (insert_node w node) p = (prefix p w \<or> startsWith_node node p)"
proof (induction w arbitrary: node p)
  case Nil
  show ?case by (cases p) simp_all
next
  case (Cons c cs)
  note IH = Cons.IH
  show ?case
  proof (cases p)
    case Nil
    then show ?thesis by simp
  next
    case p: (Cons d ds)
    show ?thesis
    proof (cases "d = c")
      case True
      show ?thesis
      proof (cases "children node c")
        case None
        with p True show ?thesis
          by (auto simp add: Let_def IH startsWith_new_TrieNode)
      next
        case (Some n)
        with p True show ?thesis
          by (simp add: Let_def IH)
      qed
    next
      case False
      with p show ?thesis by (simp add: Let_def)
    qed
  qed
qed

lemma insert_all_Nil: "insert_all [] t = t"
  by (simp add: insert_all_def)

lemma insert_all_snoc: "insert_all (ws @ [w]) t = insert_word w (insert_all ws t)"
  by (simp add: insert_all_def)

lemma search_insert_all:
  "search (insert_all ws t) v = (v \<in> set ws \<or> search t v)"
proof (induction ws rule: rev_induct)
  case Nil
  show ?case by (simp add: insert_all_Nil)
next
  case (snoc w ws)
  have "search (insert_all (ws @ [w]) t) v = (v = w \<or> search (insert_all ws t) v)"
    by (simp add: insert_all_snoc search_def insert_word_def search_insert_node)
  with snoc show ?case by auto
qed

lemma startsWith_insert_all:
  "startsWith (insert_all ws t) p = ((\<exists>w. w \<in> set ws \<and> prefix p w) \<or> startsWith t p)"
proof (induction ws rule: rev_induct)
  case Nil
  show ?case by (simp add: insert_all_Nil)
next
  case (snoc w ws)
  have "startsWith (insert_all (ws @ [w]) t) p
          = (prefix p w \<or> startsWith (insert_all ws t) p)"
    by (simp add: insert_all_snoc startsWith_def insert_word_def startsWith_insert_node)
  with snoc show ?case by auto
qed

lemma set_insert_words: "set (insert_words w ws) = insert w (set ws)"
  by (auto simp: insert_words_def)

lemma distinct_insert_words: "distinct ws \<Longrightarrow> distinct (insert_words w ws)"
  by (simp add: insert_words_def)

lemma words_insert_all: "set (words (insert_all ws t)) = set ws \<union> set (words t)"
proof (induction ws rule: rev_induct)
  case Nil
  show ?case by (simp add: insert_all_Nil)
next
  case (snoc w ws)
  then show ?case
    by (simp add: insert_all_snoc insert_word_def set_insert_words)
qed

lemma distinct_words_insert_all:
  "distinct (words t) \<Longrightarrow> distinct (words (insert_all ws t))"
proof (induction ws rule: rev_induct)
  case Nil
  then show ?case by (simp add: insert_all_Nil)
next
  case (snoc w ws)
  then show ?case
    by (simp add: insert_all_snoc insert_word_def distinct_insert_words)
qed

text \<open>
  Claim C5. After any sequence of \<open>insert\<close> calls on a new trie, \<open>search w\<close> is true
  exactly for the words \<open>w\<close> that were inserted: every inserted word is found whatever
  else was inserted, and a word that was not inserted is not found, also when it is a
  proper prefix of an inserted word. The backing set \<open>words\<close> holds the same words.
\<close>

theorem search_iff_inserted:
  "search (insert_all ws new_Trie) w = (w \<in> set ws)
   \<and> set (words (insert_all ws new_Trie)) = set ws"
proof -
  have "search new_Trie w = False"
    by (simp add: search_def new_Trie_def search_new_TrieNode)
  then show ?thesis
    by (simp add: search_insert_all words_insert_all new_Trie_def)
qed

text \<open>
  Claim C6, as amended. After any sequence of \<open>insert\<close> calls on a new trie,
  \<open>startsWith p\<close> is true exactly when \<open>p\<close> is empty or some stored word has \<open>p\<close> as a
  leading substring, whatever the terminal flags are. (The path of the empty prefix is
  the root, which exists in a trie that stores no word as well.)
\<close>

theorem startsWith_iff_stored_prefix:
  "startsWith (insert_all ws new_Trie) p
     = (p = [] \<or> stored_with_prefix (insert_all ws new_Trie) p)"
proof -
  have "startsWith new_Trie p = (p = [])"
    by (simp add: startsWith_def new_Trie_def startsWith_new_TrieNode)
  moreover have "stored_with_prefix (insert_all ws new_Trie) p
                   = (\<exists>w. w \<in> set ws \<and> prefix p w)"
    by (auto simp add: stored_with_prefix_def list_ex_iff words_insert_all new_Trie_def)
  ultimately show ?thesis
    by (auto simp add: startsWith_insert_all)
qed

text \<open>
  Claim C6 as it is written fails on the trie that \<open>Trie()\<close> builds, before any
  \<open>insert\<close>: \<open>startsWith\<close> of the empty prefix is true and no word is stored.
\<close>

theorem startsWith_empty_trie_counterexample:
  "\<not> (startsWith (insert_all [] new_Trie) []
        = stored_with_prefix (insert_all [] new_Trie) [])"
  by (simp add: insert_all_Nil startsWith_def stored_with_prefix_def new_Trie_def)

section \<open>Counting the words with a prefix\<close>

lemma find_from_ge: "find_from w s pos = Some q \<Longrightarrow> pos \<le> q"
  by (induction w arbitrary: pos) (auto split: if_splits dest: Suc_leD)

lemma take_eq_prefix: "(take (length s) w = s) = prefix s w"
  by (metis prefix_def append_eq_conv_conj take_is_prefix)

lemma find_from_here: "(find_from w s pos = Some pos) = prefix s w"
proof (cases w)
  case Nil
  then show ?thesis by simp
next
  case (Cons c cs)
  have "find_from cs s (Suc pos) \<noteq> Some pos"
    using find_from_ge [of cs s "Suc pos" pos] by auto
  with Cons show ?thesis
    by (simp add: take_eq_prefix [symmetric] del: take_Suc_Cons)
qed

text \<open>\<open>word.find(prefix) == 0\<close> is the test that \<open>word\<close> begins with \<open>prefix\<close>.\<close>

lemma find_str_0: "(find_str w s = Some 0) = prefix s w"
  by (simp add: find_str_def find_from_here)

lemma count_loop_iff:
  "count_loop ws p k c =
     (1 \<le> length (filter (prefix p) ws) \<and> k \<le> c + int (length (filter (prefix p) ws)))"
proof (induction ws arbitrary: c)
  case Nil
  show ?case by simp
next
  case (Cons w ws)
  show ?case
  proof (cases "prefix p w")
    case True
    then show ?thesis
      by (auto simp add: find_str_0 Cons.IH)
  next
    case False
    then show ?thesis
      by (simp add: find_str_0 Cons.IH)
  qed
qed

lemma Check_count:
  "CheckPrefixHasMinimumWords l p k
     = (max k 1 \<le> int (length (filter (prefix p) (words (trie l)))))"
  by (auto simp add: CheckPrefixHasMinimumWords_def Let_def count_loop_iff)

lemma prefix_count_filter:
  "distinct (words (trie l)) \<Longrightarrow>
   prefix_count l p = length (filter (prefix p) (words (trie l)))"
  by (simp add: prefix_count_def distinct_card flip: set_filter)

text \<open>
  Claim C2, as amended. \<open>CheckPrefixHasMinimumWords p k\<close> is true exactly when the number
  of words of the dictionary word set that begin with \<open>p\<close> is at least \<open>k\<close> and at least
  one; for every \<open>k \<ge> 1\<close> that is the claim as written. The word set is duplicate-free
  and may be visited in any order.
\<close>

theorem CheckPrefixHasMinimumWords_iff:
  "distinct (words (trie l)) \<Longrightarrow>
   CheckPrefixHasMinimumWords l p k = (max k 1 \<le> int (prefix_count l p))"
  by (simp add: Check_count prefix_count_filter)

theorem CheckPrefixHasMinimumWords_iff_witness:
  "distinct (words (trie scenario_Lexicon))
   \<and> prefix_count scenario_Lexicon ''ca'' = 3
   \<and> CheckPrefixHasMinimumWords scenario_Lexicon ''ca'' 3
   \<and> \<not> CheckPrefixHasMinimumWords scenario_Lexicon ''ca'' 4"
proof -
  have d: "distinct (words (trie scenario_Lexicon))"
    by code_simp
  have n: "prefix_count scenario_Lexicon ''ca'' = 3"
    by code_simp
  show ?thesis
    using d n CheckPrefixHasMinimumWords_iff [OF d, of "''ca''" 3]
      CheckPrefixHasMinimumWords_iff [OF d, of "''ca''" 4]
    by simp
qed

text \<open>
  Claim C2 as it is written fails for a minimum that is not positive: no word of the
  dictionary \<open>{cat, car, cart, dog}\<close> begins with \<open>x\<close>, the count 0 is at least the
  minimum 0, and the function returns \<open>false\<close>, since it compares the count with the
  minimum only after it has found a word.
\<close>

theorem CheckPrefixHasMinimumWords_zero_counterexample:
  "\<not> (CheckPrefixHasMinimumWords scenario_Lexicon ''x'' 0
        = (0 \<le> int (prefix_count scenario_Lexicon ''x'')))"
  by code_simp

section \<open>The generated prefix\<close>

lemma GeneratePrefix_loop_accepts:
  "GeneratePrefix_loop l len Randomize randomPrefix draws = Some (Inr p) \<Longrightarrow>
   CheckPrefixHasMinimumWords l p 20"
proof (induction l len Randomize randomPrefix draws rule: GeneratePrefix_loop.induct)
  case (1 l len Randomize randomPrefix draws)
  from "1.prems" show ?case
    by (subst (asm) GeneratePrefix_loop.simps)
       (auto split: option.splits sum.splits if_splits dest: "1.IH")
qed

text \<open>
  Claim C1. When the dictionary word set is not empty and the call returns a string
  \<open>p\<close>, then \<open>CheckPrefixHasMinimumWords p 20\<close> is true, and at least 20 words of the
  dictionary begin with \<open>p\<close>.
\<close>

theorem GeneratePrefix_has_20_words:
  assumes "words (trie l) \<noteq> []"
    and "distinct (words (trie l))"
    and "GeneratePrefixFromRandomWord l len Randomize draws = Some (Inr p)"
  shows "CheckPrefixHasMinimumWords l p 20 \<and> 20 \<le> prefix_count l p"
proof -
  from assms(1,3) have "GeneratePrefix_loop l len Randomize [] draws = Some (Inr p)"
    by (simp add: GeneratePrefixFromRandomWord_def)
  then have c: "CheckPrefixHasMinimumWords l p 20"
    by (rule GeneratePrefix_loop_accepts)
  then have "20 \<le> prefix_count l p"
    using assms(2) by (simp add: Check_count prefix_count_filter)
  with c show ?thesis by simp
qed

theorem GeneratePrefix_has_20_words_witness:
  "words (trie twenty_Lexicon) \<noteq> []
   \<and> distinct (words (trie twenty_Lexicon))
   \<and> GeneratePrefixFromRandomWord twenty_Lexicon 1 False [1] = Some (Inr ''a'')
   \<and> CheckPrefixHasMinimumWords twenty_Lexicon ''a'' 20
   \<and> 20 \<le> prefix_count twenty_Lexicon ''a''"
proof -
  have n: "words (trie twenty_Lexicon) \<noteq> []"
    by code_simp
  have d: "distinct (words (trie twenty_Lexicon))"
    by code_simp
  have g: "GeneratePrefixFromRandomWord twenty_Lexicon 1 False [1] = Some (Inr ''a'')"
    by code_simp
  show ?thesis
    using n d g GeneratePrefix_has_20_words [OF n d g] by simp
qed

text \<open>
  Claim C4. When the dictionary has at least 20 words and the first word drawn is
  shorter than 2 characters, \<open>continue\<close> leads to the test of the loop with
  \<open>randomPrefix\<close> still empty; every word begins with the empty string, so
  \<open>CheckPrefixHasMinimumWords\<close> of it and 20 is true, and the call returns the empty
  string, whatever \<open>length\<close> and \<open>Randomize\<close> are.
\<close>

theorem GeneratePrefix_short_word_returns_empty:
  assumes "20 \<le> length (words (trie l))"
    and "length (words (trie l) ! (r mod length (words (trie l)))) < 2"
  shows "CheckPrefixHasMinimumWords l [] 20
         \<and> GeneratePrefixFromRandomWord l len Randomize (r # rs) = Some (Inr [])"
proof -
  from assms(1) have c: "CheckPrefixHasMinimumWords l [] 20"
    by (simp add: Check_count)
  from assms(2) have "loop_body l len Randomize [] (r # rs) = Some (Inr [], rs)"
    by (simp add: loop_body_def Let_def)
  with c have "GeneratePrefix_loop l len Randomize [] (r # rs) = Some (Inr [])"
    by (subst GeneratePrefix_loop.simps) simp
  moreover from assms(1) have "words (trie l) \<noteq> []"
    by auto
  ultimately show ?thesis
    using c by (simp add: GeneratePrefixFromRandomWord_def)
qed

theorem GeneratePrefix_short_word_returns_empty_witness:
  "20 \<le> length (words (trie twenty_Lexicon))
   \<and> words (trie twenty_Lexicon) ! (40 mod length (words (trie twenty_Lexicon))) = ''a''
   \<and> CheckPrefixHasMinimumWords twenty_Lexicon [] 20
   \<and> GeneratePrefixFromRandomWord twenty_Lexicon 3 False [40, 7] = Some (Inr [])"
proof -
  have n: "20 \<le> length (words (trie twenty_Lexicon))"
    by code_simp
  have w: "words (trie twenty_Lexicon) ! (40 mod length (words (trie twenty_Lexicon))) = ''a''"
    by code_simp
  then have s: "length (words (trie twenty_Lexicon)
                          ! (40 mod length (words (trie twenty_Lexicon)))) < 2"
    by simp
  show ?thesis
    using n w GeneratePrefix_short_word_returns_empty [OF n s, of 3 False "[7]"] by simp
qed

text \<open>
  Claim C3 at a call the program can make: the dictionary holds the twenty words above,
  \<open>length\<close> is 2, \<open>Randomize\<close> is false and the first draw selects the word \<open>a\<close>. The
  claim promises a prefix that is not empty, of length 2 cut down to the length 1 of
  the word drawn; the call returns the empty string.
\<close>

theorem GeneratePrefix_returns_empty_prefix:
  "words (trie twenty_Lexicon) ! (0 mod length (words (trie twenty_Lexicon))) = ''a''
   \<and> GeneratePrefixFromRandomWord twenty_Lexicon 2 False [0] = Some (Inr [])"
  by code_simp

section \<open>Normalisation of the player's input\<close>

lemma isspace_tolower: "isspace (tolower c) = isspace c"
  by (auto simp add: isspace_def tolower_def)

lemma tolower_idem: "tolower (tolower c) = tolower c"
  by (auto simp add: tolower_def)

text \<open>\<open>trim\<close> removes the leading white space and then the trailing white space.\<close>

lemma trim_dropWhile:
  "trim s = rev (dropWhile isspace (rev (dropWhile isspace s)))"
proof (cases "dropWhile isspace s = []")
  case True
  then have tk: "takeWhile isspace s = s"
    by (metis append_Nil2 takeWhile_dropWhile_id)
  have "trim s = []"
    unfolding trim_def tk by simp
  moreover have "rev (dropWhile isspace (rev (dropWhile isspace s))) = []"
    unfolding True by simp
  ultimately show ?thesis by simp
next
  case False
  define a where "a = takeWhile isspace s"
  define t where "t = dropWhile isspace s"
  have s: "s = a @ t" by (simp add: a_def t_def)
  from False have tne: "t \<noteq> []" by (simp add: t_def)
  then have hd: "\<not> isspace (hd t)"
    unfolding t_def by (rule hd_dropWhile)
  have tw: "takeWhile isspace (rev s) = takeWhile isspace (rev t)"
  proof -
    from tne have "hd t \<in> set (rev t)" by simp
    then have "takeWhile isspace (rev t @ rev a) = takeWhile isspace (rev t)"
      using hd by (rule takeWhile_append1)
    then show ?thesis by (simp add: s)
  qed
  have len_a: "length a \<noteq> length s" using tne by (simp add: s)
  define u where "u = rev (dropWhile isspace (rev t))"
  define v where "v = rev (takeWhile isspace (rev t))"
  have "rev t = rev v @ rev u"
    by (simp add: u_def v_def)
  then have t_eq: "t = u @ v"
    by (metis rev_append rev_rev_ident)
  have lv: "length (takeWhile isspace (rev s)) = length v"
    by (simp add: tw v_def)
  have 1: "trim s = take (length s - length v - length a) (drop (length a) s)"
    using len_a unfolding trim_def Let_def a_def [symmetric] lv by simp
  have 2: "drop (length a) s = t"
    unfolding s by simp
  have 3: "length s - length v - length a = length u"
    unfolding s t_eq by simp
  have 4: "take (length u) t = u"
    unfolding t_eq by simp
  have "trim s = u"
    unfolding 1 2 3 4 ..
  then show ?thesis by (simp add: u_def t_def)
qed

text \<open>A string with no white space at either end.\<close>

definition trimmed :: "string \<Rightarrow> bool" where
  "trimmed s = (s = [] \<or> (\<not> isspace (hd s) \<and> \<not> isspace (last s)))"

lemma trimmed_trim: "trimmed (trim s)"
proof (cases "trim s = []")
  case True
  then show ?thesis by (simp add: trimmed_def)
next
  case False
  let ?t = "dropWhile isspace s"
  let ?u = "dropWhile isspace (rev ?t)"
  from False have une: "?u \<noteq> []" by (simp add: trim_dropWhile)
  then have tne: "?t \<noteq> []"
    by (metis dropWhile.simps(1) rev.simps(1))
  have "\<not> isspace (hd ?u)" using une by (rule hd_dropWhile)
  then have l: "\<not> isspace (last (trim s))"
    using une by (simp add: trim_dropWhile last_rev)
  have "rev ?t = takeWhile isspace (rev ?t) @ ?u" by simp
  then have "?t = rev ?u @ rev (takeWhile isspace (rev ?t))"
    by (metis rev_append rev_rev_ident)
  then have "hd ?t = hd (rev ?u)" using une
    by (metis hd_append2 rev_is_Nil_conv)
  moreover have "\<not> isspace (hd ?t)" using tne by (rule hd_dropWhile)
  ultimately have "\<not> isspace (hd (trim s))" by (simp add: trim_dropWhile)
  with l show ?thesis by (simp add: trimmed_def)
qed

lemma trim_trimmed: "trimmed s \<Longrightarrow> trim s = s"
proof (cases "s = []")
  case True
  then show ?thesis by (simp add: trim_dropWhile)
next
  case False
  assume "trimmed s"
  with False have h: "\<not> isspace (hd s)" and l: "\<not> isspace (last s)"
    by (simp_all add: trimmed_def)
  from False h have 1: "dropWhile isspace s = s"
    by (cases s) simp_all
  from False l have "dropWhile isspace (rev s) = rev s"
    by (cases "rev s") (simp_all add: last_rev [symmetric] hd_rev)
  with 1 show ?thesis by (simp add: trim_dropWhile)
qed

lemma trimmed_map_tolower: "trimmed (map tolower s) = trimmed s"
  by (cases "s = []") (simp_all add: trimmed_def hd_map last_map isspace_tolower)

lemma normalize_idem:
  "map tolower (trim (map tolower (trim s))) = map tolower (trim s)"
proof -
  have "trimmed (map tolower (trim s))"
    by (simp add: trimmed_map_tolower trimmed_trim)
  then have "trim (map tolower (trim s)) = map tolower (trim s)"
    by (rule trim_trimmed)
  then show ?thesis by (simp add: tolower_idem)
qed

lemma trim_map_tolower: "trim (map tolower s) = map tolower (trim s)"
proof -
  have "isspace \<circ> tolower = isspace"
    by (rule ext) (simp add: isspace_tolower)
  then have c: "dropWhile isspace (map tolower xs) = map tolower (dropWhile isspace xs)" for xs
    by (simp add: dropWhile_map)
  show ?thesis
    by (simp add: trim_dropWhile c rev_map)
qed

lemma checkUserWord_search: "checkUserWord l raw = search (trie l) (map tolower (trim raw))"
  by (simp add: checkUserWord_def)

lemma isNsfwWord_search: "isNsfwWord l raw = search (nsfwTrie l) (map tolower (trim raw))"
  by (simp add: isNsfwWord_def)

text \<open>
  Claim C7. \<open>checkUserWord\<close> of any input is \<open>checkUserWord\<close> of the input trimmed and
  in lower case, in whichever order the two are done; so \<open>"  CAT "\<close> and \<open>"cat"\<close> have
  the same result in every lexicon.
\<close>

theorem checkUserWord_normalized:
  "checkUserWord l raw = checkUserWord l (map tolower (trim raw))
   \<and> checkUserWord l raw = checkUserWord l (trim (map tolower raw))
   \<and> checkUserWord l ''  CAT '' = checkUserWord l ''cat''"
proof -
  have a: "checkUserWord l raw = checkUserWord l (map tolower (trim raw))"
    by (simp only: checkUserWord_search normalize_idem)
  have b: "checkUserWord l (trim (map tolower raw)) = checkUserWord l (map tolower (trim raw))"
    by (simp only: trim_map_tolower)
  have "map tolower (trim ''  CAT '') = ''cat''"
    by code_simp
  moreover have "map tolower (trim ''cat'') = ''cat''"
    by code_simp
  ultimately have "checkUserWord l ''  CAT '' = checkUserWord l ''cat''"
    by (simp only: checkUserWord_search)
  with a b show ?thesis by simp
qed

section \<open>Lookup in a trie built by inserts\<close>

lemma search_new_Trie: "search new_Trie w = False"
  by (simp add: search_def new_Trie_def search_new_TrieNode)

lemma search_loaded_trie: "search (insert_all ws new_Trie) w = (w \<in> set ws)"
  by (simp add: search_insert_all search_new_Trie)

section \<open>The singleton\<close>

lemma Initialize_initialized:
  "lexicon_instance g = Some l \<Longrightarrow> Initialize fs wordFilename prefixFilename nsfwFilename g = Inr g"
  by (simp add: Initialize_def)

lemma UE_LoadDictionary_instance:
  "lexicon_instance g = Some l \<Longrightarrow>
   \<exists>g' l'. UE_LoadDictionary fs fileName g = Inr g' \<and> lexicon_instance g' = Some l'"
  by (simp add: UE_LoadDictionary_def Let_def split: option.splits)

lemma UE_LoadPrefixes_instance:
  "lexicon_instance (UE_LoadPrefixes fs fileName g) = lexicon_instance g"
  by (simp add: UE_LoadPrefixes_def split: option.splits)

lemma UE_LoadNSFW_instance:
  "lexicon_instance g = Some l \<Longrightarrow>
   \<exists>g' l'. UE_LoadNSFW fs fileName g = Inr g' \<and> lexicon_instance g' = Some l'"
  by (simp add: UE_LoadNSFW_def Let_def split: option.splits)

lemma Initialize_completes:
  "\<exists>g' l'. Initialize fs wordFilename prefixFilename nsfwFilename g = Inr g'
           \<and> lexicon_instance g' = Some l'"
proof (cases "lexicon_instance g")
  case (Some l)
  then show ?thesis by (simp add: Initialize_def)
next
  case None
  have "lexicon_instance (g\<lparr>lexicon_instance := Some new_Lexicon\<rparr>) = Some new_Lexicon"
    by simp
  then obtain g1 l1 where
    1: "UE_LoadDictionary fs wordFilename (g\<lparr>lexicon_instance := Some new_Lexicon\<rparr>) = Inr g1"
    and "lexicon_instance g1 = Some l1"
    using UE_LoadDictionary_instance by blast
  then have "lexicon_instance (UE_LoadPrefixes fs prefixFilename g1) = Some l1"
    by (simp add: UE_LoadPrefixes_instance)
  then obtain g3 l3 where
    "UE_LoadNSFW fs nsfwFilename (UE_LoadPrefixes fs prefixFilename g1) = Inr g3"
    and "lexicon_instance g3 = Some l3"
    using UE_LoadNSFW_instance by blast
  with None 1 show ?thesis by (simp add: Initialize_def)
qed

lemma Initialize_calls_initialized:
  "lexicon_instance g = Some l \<Longrightarrow> Initialize_calls calls g = Inr g"
proof (induction calls)
  case Nil
  show ?case by simp
next
  case (Cons call calls)
  then show ?case
    by (cases call) (simp add: Initialize_initialized)
qed

text \<open>
  Claim C9. A call of \<open>Initialize\<close> completes with an instance, and after it every
  further call, whatever its files and file names are, leaves the whole static state as
  it is: the instance with its two tries, and the lists of the asset manager.
\<close>

theorem Initialize_again_is_noop:
  "\<exists>g1. Initialize fs wordFilename prefixFilename nsfwFilename g = Inr g1
        \<and> lexicon_instance g1 \<noteq> None
        \<and> Initialize fs2 wordFilename2 prefixFilename2 nsfwFilename2 g1 = Inr g1
        \<and> Initialize_calls calls g1 = Inr g1"
proof -
  obtain g1 l1 where "Initialize fs wordFilename prefixFilename nsfwFilename g = Inr g1"
    and "lexicon_instance g1 = Some l1"
    using Initialize_completes by blast
  then show ?thesis
    by (simp add: Initialize_initialized Initialize_calls_initialized)
qed

theorem Initialize_again_is_noop_witness:
  "\<exists>g1. Initialize scenario_files ''words.json'' ''prefixes.json'' ''nsfw.json'' startup_Globals
          = Inr g1
        \<and> dictionaryWords g1 = [''cat'', ''dog'']
        \<and> prefixList g1 = [''ca'', ''do'']
        \<and> nsfwList g1 = [''damn'']
        \<and> Initialize Map.empty ''w'' ''p'' ''n'' g1 = Inr g1"
proof -
  obtain g1 where
    i: "Initialize scenario_files ''words.json'' ''prefixes.json'' ''nsfw.json'' startup_Globals
          = Inr g1"
    and n: "Initialize Map.empty ''w'' ''p'' ''n'' g1 = Inr g1"
    using Initialize_again_is_noop
      [where fs = scenario_files and wordFilename = "''words.json''"
         and prefixFilename = "''prefixes.json''" and nsfwFilename = "''nsfw.json''"
         and g = startup_Globals and ?fs2.0 = Map.empty and ?wordFilename2.0 = "''w''"
         and ?prefixFilename2.0 = "''p''" and ?nsfwFilename2.0 = "''n''"]
    by blast
  have "map_sum id (\<lambda>g. (dictionaryWords g, prefixList g, nsfwList g))
          (Initialize scenario_files ''words.json'' ''prefixes.json'' ''nsfw.json''
             startup_Globals)
        = Inr ([''cat'', ''dog''], [''ca'', ''do''], [''damn''])"
    by code_simp
  with i have "dictionaryWords g1 = [''cat'', ''dog''] \<and> prefixList g1 = [''ca'', ''do'']
               \<and> nsfwList g1 = [''damn'']"
    by simp
  with i n show ?thesis by blast
qed

text \<open>
  Claim C10. \<open>GetInstance\<close> before any \<open>Initialize\<close>, that is without an instance,
  returns the null pointer and writes a line to \<open>std::cerr\<close>; \<open>getRandomPrefix\<close> with an
  empty prefix list returns the empty string and writes a line to \<open>std::cerr\<close>. Both are
  ordinary returns.
\<close>

theorem misuse_returns_sentinel:
  "(lexicon_instance g = None \<longrightarrow>
      GetInstance g = (None, [''Error: Lexicon instance is not initialized!'']))
   \<and> (prefixList g = [] \<longrightarrow>
      getRandomPrefix g r = ([], [''Error: No prefixes loaded!'']))"
  by (simp add: GetInstance_def getRandomPrefix_def)

theorem misuse_returns_sentinel_witness:
  "lexicon_instance startup_Globals = None \<and> prefixList startup_Globals = []
   \<and> GetInstance startup_Globals = (None, [''Error: Lexicon instance is not initialized!''])
   \<and> getRandomPrefix startup_Globals 7 = ([], [''Error: No prefixes loaded!''])"
proof -
  have a: "lexicon_instance startup_Globals = None"
    by (simp add: startup_Globals_def)
  have b: "prefixList startup_Globals = []"
    by (simp add: startup_Globals_def)
  from misuse_returns_sentinel [of startup_Globals 7] a b
  show ?thesis by blast
qed

section \<open>The two corpora after loading\<close>

text \<open>
  The loaders are the callers of \<open>insert\<close>. Every word they insert is trimmed and in
  lower case, so that the normalisation of \<open>checkUserWord\<close> and \<open>isNsfwWord\<close> leaves it
  as it is.
\<close>

lemma checkUserWord_loaded:
  "checkUserWord (loaded_Lexicon ds ns) raw = (map tolower (trim raw) \<in> set ds)"
  by (simp add: checkUserWord_search loaded_Lexicon_def search_loaded_trie)

lemma isNsfwWord_loaded:
  "isNsfwWord (loaded_Lexicon ds ns) raw = (map tolower (trim raw) \<in> set ns)"
  by (simp add: isNsfwWord_search loaded_Lexicon_def search_loaded_trie)

lemma words_loaded:
  "set (words (trie (loaded_Lexicon ds ns))) = set ds
   \<and> set (words (nsfwTrie (loaded_Lexicon ds ns))) = set ns"
  by (simp add: loaded_Lexicon_def words_insert_all new_Trie_def)

lemma insert_all_append: "insert_all (xs @ ys) t = insert_all ys (insert_all xs t)"
  by (simp add: insert_all_def)

lemma UE_LoadDictionary_loaded:
  assumes "lexicon_instance g = Some (loaded_Lexicon ds ns)"
    and "list_all (\<lambda>x. map tolower (trim x) = x) ds"
  shows "\<exists>g' ds'. UE_LoadDictionary fs fileName g = Inr g'
           \<and> lexicon_instance g' = Some (loaded_Lexicon ds' ns)
           \<and> list_all (\<lambda>x. map tolower (trim x) = x) ds'"
proof (cases "fs fileName")
  case None
  with assms show ?thesis
    by (auto simp add: UE_LoadDictionary_def)
next
  case (Some jsonString)
  show ?thesis
  proof (cases "array_content jsonString (json_key ''words'')")
    case None
    with Some assms show ?thesis
      by (auto simp add: UE_LoadDictionary_def)
  next
    case content: (Some arrayContent)
    define ws where "ws = filter (\<lambda>word. word \<noteq> [])
        (map (\<lambda>word. map tolower (trim (remove_quotes word))) (getlines arrayContent []))"
    have n: "list_all (\<lambda>x. map tolower (trim x) = x) ws"
      by (auto simp add: ws_def list_all_iff normalize_idem)
    have "UE_LoadDictionary fs fileName g
            = Inr (g\<lparr>dictionaryWords := ws,
                     lexicon_instance := Some (loaded_Lexicon (ds @ ws) ns)\<rparr>)"
      using Some content assms(1)
      by (simp add: UE_LoadDictionary_def Let_def ws_def [symmetric] loaded_Lexicon_def
            insert_all_append)
    with n assms(2) show ?thesis
      by (intro exI [of _ "g\<lparr>dictionaryWords := ws,
                     lexicon_instance := Some (loaded_Lexicon (ds @ ws) ns)\<rparr>"]
            exI [of _ "ds @ ws"]) simp
  qed
qed

lemma UE_LoadNSFW_loaded:
  assumes "lexicon_instance g = Some (loaded_Lexicon ds ns)"
    and "list_all (\<lambda>x. map tolower (trim x) = x) ns"
  shows "\<exists>g' ns'. UE_LoadNSFW fs fileName g = Inr g'
           \<and> lexicon_instance g' = Some (loaded_Lexicon ds ns')
           \<and> list_all (\<lambda>x. map tolower (trim x) = x) ns'"
proof (cases "fs fileName")
  case None
  with assms show ?thesis
    by (auto simp add: UE_LoadNSFW_def)
next
  case (Some jsonString)
  show ?thesis
  proof (cases "array_content jsonString (json_key ''nsfw'')")
    case None
    with Some assms show ?thesis
      by (auto simp add: UE_LoadNSFW_def)
  next
    case content: (Some arrayContent)
    define ws where "ws = filter (\<lambda>item. item \<noteq> [])
        (map (\<lambda>item. map tolower (rev (dropWhile isspace
                 (rev (dropWhile isspace (remove_quotes item))))))
           (getlines arrayContent []))"
    have n: "list_all (\<lambda>x. map tolower (trim x) = x) ws"
      by (auto simp add: ws_def list_all_iff trim_dropWhile [symmetric] normalize_idem)
    have "UE_LoadNSFW fs fileName g
            = Inr (g\<lparr>nsfwList := ws,
                     lexicon_instance := Some (loaded_Lexicon ds (ns @ ws))\<rparr>)"
      using Some content assms(1)
      by (simp add: UE_LoadNSFW_def Let_def ws_def [symmetric] loaded_Lexicon_def
            insert_all_append)
    with n assms(2) show ?thesis
      by (intro exI [of _ "g\<lparr>nsfwList := ws,
                     lexicon_instance := Some (loaded_Lexicon ds (ns @ ws))\<rparr>"]
            exI [of _ "ns @ ws"]) simp
  qed
qed

lemma new_Lexicon_loaded: "new_Lexicon = loaded_Lexicon [] []"
  by (simp add: new_Lexicon_def loaded_Lexicon_def insert_all_Nil)

lemma Initialize_loaded:
  assumes "lexicon_instance g0 = None"
  shows "\<exists>g ds ns. Initialize fs wordFilename prefixFilename nsfwFilename g0 = Inr g
           \<and> lexicon_instance g = Some (loaded_Lexicon ds ns)
           \<and> list_all (\<lambda>x. map tolower (trim x) = x) ds
           \<and> list_all (\<lambda>x. map tolower (trim x) = x) ns"
proof -
  have e: "list_all (\<lambda>x. map tolower (trim x) = x) []"
    by simp
  have "lexicon_instance (g0\<lparr>lexicon_instance := Some new_Lexicon\<rparr>)
          = Some (loaded_Lexicon [] [])"
    by (simp add: new_Lexicon_loaded)
  then obtain g1 ds where
    1: "UE_LoadDictionary fs wordFilename (g0\<lparr>lexicon_instance := Some new_Lexicon\<rparr>) = Inr g1"
    and i1: "lexicon_instance g1 = Some (loaded_Lexicon ds [])"
    and n1: "list_all (\<lambda>x. map tolower (trim x) = x) ds"
    using UE_LoadDictionary_loaded [OF _ e, where fs = fs and fileName = wordFilename]
    by blast
  from i1 have "lexicon_instance (UE_LoadPrefixes fs prefixFilename g1)
                  = Some (loaded_Lexicon ds [])"
    by (simp add: UE_LoadPrefixes_instance)
  then obtain g3 ns where
    3: "UE_LoadNSFW fs nsfwFilename (UE_LoadPrefixes fs prefixFilename g1) = Inr g3"
    and i3: "lexicon_instance g3 = Some (loaded_Lexicon ds ns)"
    and n3: "list_all (\<lambda>x. map tolower (trim x) = x) ns"
    using UE_LoadNSFW_loaded [OF _ e, where fs = fs and fileName = nsfwFilename]
    by blast
  from assms 1 3 have "Initialize fs wordFilename prefixFilename nsfwFilename g0 = Inr g3"
    by (simp add: Initialize_def)
  with i3 n1 n3 show ?thesis by blast
qed

text \<open>
  Claim C8. In the lexicon that \<open>Initialize\<close> has loaded, for every file system: a word
  \<open>w\<close> that was inserted only into the profanity trie and not into the dictionary trie
  has \<open>checkUserWord w\<close> false, and a word inserted only into the dictionary trie has
  \<open>isNsfwWord w\<close> false. The result of \<open>checkUserWord\<close> does not depend on the profanity
  trie at all, nor the result of \<open>isNsfwWord\<close> on the dictionary trie.
\<close>

theorem corpora_independent:
  assumes "lexicon_instance g0 = None"
    and "Initialize fs wordFilename prefixFilename nsfwFilename g0 = Inr g"
    and "lexicon_instance g = Some l"
  shows "(w \<in> set (words (nsfwTrie l)) \<and> w \<notin> set (words (trie l)) \<longrightarrow> \<not> checkUserWord l w)
       \<and> (w \<in> set (words (trie l)) \<and> w \<notin> set (words (nsfwTrie l)) \<longrightarrow> \<not> isNsfwWord l w)
       \<and> checkUserWord (l\<lparr>nsfwTrie := t\<rparr>) raw = checkUserWord l raw
       \<and> isNsfwWord (l\<lparr>trie := t\<rparr>) raw = isNsfwWord l raw"
proof -
  from assms(1) obtain g' ds ns where
    "Initialize fs wordFilename prefixFilename nsfwFilename g0 = Inr g'"
    and "lexicon_instance g' = Some (loaded_Lexicon ds ns)"
    and nd: "list_all (\<lambda>x. map tolower (trim x) = x) ds"
    and nn: "list_all (\<lambda>x. map tolower (trim x) = x) ns"
    using Initialize_loaded by blast
  with assms(2,3) have l: "l = loaded_Lexicon ds ns"
    by simp
  have a: "w \<in> set ns \<Longrightarrow> w \<notin> set ds \<Longrightarrow> \<not> checkUserWord l w"
    using nn by (simp add: l checkUserWord_loaded list_all_iff)
  have b: "w \<in> set ds \<Longrightarrow> w \<notin> set ns \<Longrightarrow> \<not> isNsfwWord l w"
    using nd by (simp add: l isNsfwWord_loaded list_all_iff)
  have c: "checkUserWord (l\<lparr>nsfwTrie := t\<rparr>) raw = checkUserWord l raw"
    by (simp add: checkUserWord_search)
  have d: "isNsfwWord (l\<lparr>trie := t\<rparr>) raw = isNsfwWord l raw"
    by (simp add: isNsfwWord_search)
  from a b c d show ?thesis
    using words_loaded [of ds ns] by (simp add: l)
qed

theorem corpora_independent_witness:
  "\<exists>g l. Initialize scenario_files ''words.json'' ''prefixes.json'' ''nsfw.json'' startup_Globals
            = Inr g
         \<and> lexicon_instance g = Some l
         \<and> ''damn'' \<in> set (words (nsfwTrie l)) \<and> ''damn'' \<notin> set (words (trie l))
         \<and> \<not> checkUserWord l ''damn''
         \<and> ''dog'' \<in> set (words (trie l)) \<and> ''dog'' \<notin> set (words (nsfwTrie l))
         \<and> \<not> isNsfwWord l ''dog''"
proof -
  have s: "lexicon_instance startup_Globals = None"
    by (simp add: startup_Globals_def)
  obtain g l where
    i: "Initialize scenario_files ''words.json'' ''prefixes.json'' ''nsfw.json'' startup_Globals
          = Inr g"
    and li: "lexicon_instance g = Some l"
    using Initialize_completes by blast
  have "map_sum id (\<lambda>g. map_option (\<lambda>l. (words (trie l), words (nsfwTrie l)))
                          (lexicon_instance g))
          (Initialize scenario_files ''words.json'' ''prefixes.json'' ''nsfw.json''
             startup_Globals)
        = Inr (Some ([''dog'', ''cat''], [''damn'']))"
    by code_simp
  with i li have w: "words (trie l) = [''dog'', ''cat''] \<and> words (nsfwTrie l) = [''damn'']"
    by simp
  then have m: "''damn'' \<in> set (words (nsfwTrie l)) \<and> ''damn'' \<notin> set (words (trie l))
              \<and> ''dog'' \<in> set (words (trie l)) \<and> ''dog'' \<notin> set (words (nsfwTrie l))"
    by simp
  from corpora_independent [OF s i li, of "''damn''"]
    corpora_independent [OF s i li, of "''dog''"] m
  have "\<not> checkUserWord l ''damn'' \<and> \<not> isNsfwWord l ''dog''"
    by blast
  with i li m show ?thesis by blast
qed

end
